theory Spec2Isabelle
  imports Complex_Main "HOL-Library.Char_ord" "HOL-Library.List_Lexorder"
begin

section \<open>The image service of astro-image-service-ng\<close>

text \<open>
  A shallow embedding of \<^verbatim>\<open>packages/astro-image-service-ng/src/service/index.ts\<close>:
  the option handling of the service (\<^verbatim>\<open>validateOptions\<close>, \<^verbatim>\<open>getURL\<close>,
  \<^verbatim>\<open>parseURL\<close>, \<^verbatim>\<open>getHTMLAttributes\<close>, \<^verbatim>\<open>getSrcSet\<close>,
  \<^verbatim>\<open>getTargetDimensions\<close>). The pixel work of \<^verbatim>\<open>transform\<close> is delegated to
  external libraries and is not embedded.
\<close>

subsection \<open>JavaScript numbers\<close>

text \<open>
  A JavaScript number is modelled as an exact rational or one of the three special values.
  The rounding of IEEE doubles and the sign of zero are not modelled: arithmetic on finite
  values is exact, and there is one zero.
\<close>

datatype number = Fin rat | NaN | PosInf | NegInf

text \<open>ToBoolean on a number: \<^verbatim>\<open>0\<close> and \<^verbatim>\<open>NaN\<close> are falsy.\<close>

fun truthy :: "number \<Rightarrow> bool" where
  "truthy (Fin r) = (r \<noteq> 0)"
| "truthy NaN = False"
| "truthy PosInf = True"
| "truthy NegInf = True"

text \<open>ToBoolean on an optional number: \<^verbatim>\<open>undefined\<close> is falsy.\<close>

fun truthy_opt :: "number option \<Rightarrow> bool" where
  "truthy_opt None = False"
| "truthy_opt (Some n) = truthy n"

fun is_integer :: "number \<Rightarrow> bool" where
  "is_integer (Fin r) = (rat_of_int \<lfloor>r\<rfloor> = r)"
| "is_integer NaN = False"
| "is_integer PosInf = False"
| "is_integer NegInf = False"

text \<open>\<^verbatim>\<open>Math.round\<close>: the nearest integer, a tie going up; the special values are kept.\<close>

fun Math_round :: "number \<Rightarrow> number" where
  "Math_round (Fin r) = Fin (rat_of_int \<lfloor>r + 1 / 2\<rfloor>)"
| "Math_round NaN = NaN"
| "Math_round PosInf = PosInf"
| "Math_round NegInf = NegInf"

text \<open>\<^verbatim>\<open>Math.min\<close> of two numbers: \<^verbatim>\<open>NaN\<close> is contagious.\<close>

fun Math_min :: "number \<Rightarrow> number \<Rightarrow> number" where
  "Math_min NaN y = NaN"
| "Math_min x NaN = NaN"
| "Math_min NegInf y = NegInf"
| "Math_min x NegInf = NegInf"
| "Math_min PosInf y = y"
| "Math_min x PosInf = x"
| "Math_min (Fin a) (Fin b) = Fin (min a b)"

text \<open>The sign of a number other than \<^verbatim>\<open>NaN\<close>, and the infinity of a given sign.\<close>

fun number_sign :: "number \<Rightarrow> int" where
  "number_sign (Fin r) = (if r < 0 then - 1 else if r = 0 then 0 else 1)"
| "number_sign NaN = 0"
| "number_sign PosInf = 1"
| "number_sign NegInf = - 1"

definition infinity_of_sign :: "int \<Rightarrow> number" where
  "infinity_of_sign s = (if 0 < s then PosInf else if s < 0 then NegInf else NaN)"

text \<open>The operator \<^verbatim>\<open>*\<close>: an infinity times zero is \<^verbatim>\<open>NaN\<close>.\<close>

fun js_mul :: "number \<Rightarrow> number \<Rightarrow> number" where
  "js_mul NaN y = NaN"
| "js_mul x NaN = NaN"
| "js_mul (Fin a) (Fin b) = Fin (a * b)"
| "js_mul x y = infinity_of_sign (number_sign x * number_sign y)"

text \<open>
  The operator \<^verbatim>\<open>/\<close>: a non-zero finite value over zero is an infinity (the zero of the
  model is the positive one), zero over zero and an infinity over an infinity are
  \<^verbatim>\<open>NaN\<close>, a finite value over an infinity is zero.
\<close>

fun js_div :: "number \<Rightarrow> number \<Rightarrow> number" where
  "js_div NaN y = NaN"
| "js_div x NaN = NaN"
| "js_div (Fin a) (Fin b) = (if b = 0 then infinity_of_sign (number_sign (Fin a)) else Fin (a / b))"
| "js_div (Fin a) y = Fin 0"
| "js_div x (Fin b) = infinity_of_sign (number_sign x * (if b < 0 then - 1 else 1))"
| "js_div x y = NaN"

subsection \<open>The data model\<close>

text \<open>
  \<^verbatim>\<open>ImageMetadata\<close> of the host framework, as far as \<^verbatim>\<open>isImageMetadata\<close> looks at it:
  an object with a string \<^verbatim>\<open>src\<close> and with \<^verbatim>\<open>width\<close>, \<^verbatim>\<open>height\<close> and \<^verbatim>\<open>format\<close>.
\<close>

record ImageMetadata =
  src :: string
  width :: number
  height :: number
  format :: string

text \<open>The declared type of \<^verbatim>\<open>options.src\<close>: \<^verbatim>\<open>string | ImageMetadata\<close>.\<close>

datatype image_src = SrcString string | SrcMeta ImageMetadata

text \<open>
  What \<^verbatim>\<open>validateOptions\<close> may find in \<^verbatim>\<open>options.src\<close> at run time: nothing (a falsy
  value that is not a string), a string, an \<^verbatim>\<open>ImageMetadata\<close>, or a truthy value of
  another shape, of which only the result of \<^verbatim>\<open>typeof\<close> is kept.
\<close>

datatype raw_src = RawMissing | RawString string | RawMeta ImageMetadata | RawOther string

text \<open>A density is a number or a string such as \<^verbatim>\<open>1.5x\<close>; a quality is a number or a preset name.\<close>

datatype density = DensityNumber number | DensityString string

datatype quality = QualityNumber number | QualityString string

text \<open>The value of an HTML attribute or of any other property of the options.\<close>

datatype attr_value = AttrUndefined | AttrNumber number | AttrString string

text \<open>
  The transform options. The type \<^verbatim>\<open>Transform\<close> is declared in a file of the package that
  is not part of the sources at hand; the record has the properties that the service
  reads. The properties that the service names are fields, an absent property is
  \<open>None\<close>; \<open>attrs\<close> holds every other property of the object (the rest of the
  destructuring in \<^verbatim>\<open>getHTMLAttributes\<close>). The type of \<open>src\<close> is a parameter:
  \<^typ>\<open>raw_src\<close> for \<^verbatim>\<open>validateOptions\<close>, which checks it, \<^typ>\<open>image_src\<close> for the
  operations that rely on the declared type.
\<close>

record 's Transform =
  src :: 's
  width :: "number option"
  height :: "number option"
  format :: "string option"
  formats :: "string list option"
  quality :: "quality option"
  densities :: "density list option"
  widths :: "number list option"
  loading :: "string option"
  decoding :: "string option"
  attrs :: "string \<rightharpoonup> attr_value"

text \<open>The options object \<^verbatim>\<open>{ src }\<close>, with no other property.\<close>

definition only_src :: "'s \<Rightarrow> 's Transform" where
  "only_src s = \<lparr> Transform.src = s, width = None, height = None, format = None,
     formats = None, quality = None, densities = None, widths = None,
     loading = None, decoding = None, attrs = Map.empty \<rparr>"

subsection \<open>getTargetDimensions\<close>

definition getTargetDimensions :: "image_src Transform \<Rightarrow> number option \<times> number option" where
  "getTargetDimensions options =
     (let width = Transform.width options; height = Transform.height options in
      case Transform.src options of
        SrcMeta m \<Rightarrow>
          (let aspectRatio = js_div (ImageMetadata.width m) (ImageMetadata.height m) in
           if truthy_opt height \<and> \<not> truthy_opt width then
             (map_option (\<lambda>h. Math_round (js_mul h aspectRatio)) height, height)
           else if truthy_opt width \<and> \<not> truthy_opt height then
             (width, map_option (\<lambda>w. Math_round (js_div w aspectRatio)) width)
           else if \<not> truthy_opt width \<and> \<not> truthy_opt height then
             (Some (ImageMetadata.width m), Some (ImageMetadata.height m))
           else (width, height))
      | SrcString s \<Rightarrow> (width, height))"

subsection \<open>Strings and numbers\<close>

text \<open>
  A string is a list of bytes: the UTF-8 form of the JavaScript string. The characters
  the service itself looks at are ASCII.
\<close>

definition is_digit :: "char \<Rightarrow> bool" where
  "is_digit c = (48 \<le> (of_char c :: nat) \<and> (of_char c :: nat) \<le> 57)"

definition digit_value :: "char \<Rightarrow> nat" where
  "digit_value c = of_char c - 48"

definition digit_char :: "nat \<Rightarrow> char" where
  "digit_char d = ''0123456789'' ! d"

text \<open>
  The ASCII white space that \<^verbatim>\<open>parseInt\<close> and \<^verbatim>\<open>parseFloat\<close> skip (the white space
  outside ASCII, which they skip too, is not modelled).
\<close>

definition is_space :: "char \<Rightarrow> bool" where
  "is_space c = ((of_char c :: nat) \<in> {9, 10, 11, 12, 13, 32})"

fun string_of_nat :: "nat \<Rightarrow> string" where
  "string_of_nat n =
     (if n < 10 then [digit_char n] else string_of_nat (n div 10) @ [digit_char (n mod 10)])"

fun nat_of_digits :: "string \<Rightarrow> nat" where
  "nat_of_digits ds = foldl (\<lambda>acc c. acc * 10 + digit_value c) 0 ds"

text \<open>
  The digits after the decimal point of \<open>x\<close> with \<open>0 \<le> x < 1\<close>, by long division, at
  most \<open>fuel\<close> of them.
\<close>

fun fraction_digits :: "nat \<Rightarrow> rat \<Rightarrow> string" where
  "fraction_digits 0 x = []"
| "fraction_digits (Suc fuel) x =
     (if x = 0 then []
      else digit_char (nat \<lfloor>x * 10\<rfloor>) # fraction_digits fuel (x * 10 - rat_of_int \<lfloor>x * 10\<rfloor>))"

text \<open>
  The exponent notation of an integer from \<^verbatim>\<open>1e21\<close> on: the first digit, the other
  significant digits after a point, then \<^verbatim>\<open>e+\<close> and the exponent.
\<close>

definition exponent_string :: "nat \<Rightarrow> string" where
  "exponent_string n =
     (let ds = string_of_nat n;
          significant = rev (dropWhile (\<lambda>c. c = CHR ''0'') (rev ds))
      in (case significant of
            [] \<Rightarrow> []
          | d # rest \<Rightarrow> d # (if rest = [] then [] else CHR ''.'' # rest))
         @ ''e+'' @ string_of_nat (length ds - 1))"

text \<open>
  The string of a number, as a template literal or \<^verbatim>\<open>String\<close> gives it. Below
  \<^verbatim>\<open>1e21\<close> an integer is its decimal digits, and another value is printed with its
  decimal expansion (cut after 20 places), which is what JavaScript prints for a decimal
  literal of ordinary size such as \<^verbatim>\<open>1.5\<close>. From \<^verbatim>\<open>1e21\<close> on, where a double is an
  integer, the exponent notation is used. The exponent notation of values below
  \<^verbatim>\<open>1e-6\<close> is not modelled.
\<close>

fun unsigned_string :: "rat \<Rightarrow> string" where
  "unsigned_string r =
     (if 10 ^ 21 \<le> r then exponent_string (nat \<lfloor>r\<rfloor>)
      else string_of_nat (nat \<lfloor>r\<rfloor>) @
        (if rat_of_int \<lfloor>r\<rfloor> = r then []
         else CHR ''.'' # fraction_digits 20 (r - rat_of_int \<lfloor>r\<rfloor>)))"

fun number_toString :: "number \<Rightarrow> string" where
  "number_toString (Fin r) = (if r < 0 then CHR ''-'' # unsigned_string (- r) else unsigned_string r)"
| "number_toString NaN = ''NaN''"
| "number_toString PosInf = ''Infinity''"
| "number_toString NegInf = ''-Infinity''"

text \<open>An optional sign in front of a numeric string: the sign and the rest.\<close>

fun strip_sign :: "string \<Rightarrow> rat \<times> string" where
  "strip_sign [] = (1, [])"
| "strip_sign (c # cs) =
     (if c = CHR ''-'' then (- 1, cs) else if c = CHR ''+'' then (1, cs) else (1, c # cs))"

text \<open>
  \<^verbatim>\<open>Number.parseInt(s, 10)\<close>: leading white space is skipped, then an optional sign,
  then the longest run of decimal digits; with no digit the result is \<^verbatim>\<open>NaN\<close>.
\<close>

definition parseInt :: "string \<Rightarrow> number" where
  "parseInt s =
     (let (sign, rest) = strip_sign (dropWhile is_space s);
          ds = takeWhile is_digit rest
      in if ds = [] then NaN else Fin (sign * rat_of_nat (nat_of_digits ds)))"

text \<open>
  \<^verbatim>\<open>Number.parseFloat(s)\<close>: leading white space is skipped, then the longest prefix that
  is a decimal literal is read: an optional sign, then \<^verbatim>\<open>Infinity\<close>, or digits with an
  optional fraction and an optional exponent. With no such prefix the result is
  \<^verbatim>\<open>NaN\<close>.
\<close>

definition exponent_part :: "string \<Rightarrow> int" where
  "exponent_part s =
     (case s of
        [] \<Rightarrow> 0
      | e # t \<Rightarrow>
          if e = CHR ''e'' \<or> e = CHR ''E'' then
            (let (sign, rest) = strip_sign t; ds = takeWhile is_digit rest
             in if ds = [] then 0 else \<lfloor>sign\<rfloor> * int (nat_of_digits ds))
          else 0)"

definition parseFloat :: "string \<Rightarrow> number" where
  "parseFloat s =
     (let (sign, rest) = strip_sign (dropWhile is_space s) in
      if take 8 rest = ''Infinity'' then (if sign < 0 then NegInf else PosInf)
      else
        (let ip = takeWhile is_digit rest;
             r1 = dropWhile is_digit rest;
             (fp, r2) = (case r1 of
                           [] \<Rightarrow> ([], r1)
                         | d # t \<Rightarrow> if d = CHR ''.'' then (takeWhile is_digit t, dropWhile is_digit t)
                                    else ([], r1))
         in if ip = [] \<and> fp = [] then NaN
            else Fin (sign * (rat_of_nat (nat_of_digits ip)
                              + rat_of_nat (nat_of_digits fp) / 10 ^ length fp)
                      * (if 0 \<le> exponent_part r2 then 10 ^ nat (exponent_part r2)
                         else 1 / 10 ^ nat (- exponent_part r2)))))"

subsection \<open>The query string of a URL\<close>

text \<open>
  \<^verbatim>\<open>URLSearchParams\<close> is an ordered list of name and value pairs; \<^verbatim>\<open>get\<close> returns the
  value of the first pair with the name, \<^verbatim>\<open>null\<close> (here \<open>None\<close>) when there is none.
\<close>

type_synonym URLSearchParams = "(string \<times> string) list"

definition get :: "URLSearchParams \<Rightarrow> string \<Rightarrow> string option" where
  "get query name = map_of query name"

text \<open>
  The serializer of \<^verbatim>\<open>application/x-www-form-urlencoded\<close>, which \<^verbatim>\<open>`${query}`\<close> runs:
  letters, digits and \<^verbatim>\<open>*-._\<close> are kept, a space becomes \<^verbatim>\<open>+\<close>, every other byte is
  percent-encoded with upper-case hexadecimal digits.
\<close>

definition is_alnum :: "char \<Rightarrow> bool" where
  "is_alnum c =
     (let n = (of_char c :: nat) in (48 \<le> n \<and> n \<le> 57) \<or> (65 \<le> n \<and> n \<le> 90) \<or> (97 \<le> n \<and> n \<le> 122))"







text \<open>
  The parser of \<^verbatim>\<open>application/x-www-form-urlencoded\<close>, which gives a URL its
  \<^verbatim>\<open>searchParams\<close>: the query is split at every \<^verbatim>\<open>&\<close>, empty pieces are dropped, a
  piece is split at its first \<^verbatim>\<open>=\<close>, then \<^verbatim>\<open>+\<close> becomes a space and percent escapes
  are decoded.
\<close>

definition is_hex :: "char \<Rightarrow> bool" where
  "is_hex c =
     (let n = (of_char c :: nat) in (48 \<le> n \<and> n \<le> 57) \<or> (65 \<le> n \<and> n \<le> 70) \<or> (97 \<le> n \<and> n \<le> 102))"

definition hex_value :: "char \<Rightarrow> nat" where
  "hex_value c =
     (let n = (of_char c :: nat) in if n \<le> 57 then n - 48 else if n \<le> 70 then n - 55 else n - 87)"

fun percent_decode :: "string \<Rightarrow> string" where
  "percent_decode [] = []"
| "percent_decode (c # cs) =
     (case cs of
        h1 # h2 # rest \<Rightarrow>
          if c = CHR ''%'' \<and> is_hex h1 \<and> is_hex h2
          then char_of (16 * hex_value h1 + hex_value h2) # percent_decode rest
          else c # percent_decode cs
      | _ \<Rightarrow> c # percent_decode cs)"

definition urldecode :: "string \<Rightarrow> string" where
  "urldecode s = percent_decode (map (\<lambda>c. if c = CHR ''+'' then CHR '' '' else c) s)"

fun split_on :: "char \<Rightarrow> string \<Rightarrow> string list" where
  "split_on sep [] = [[]]"
| "split_on sep (c # cs) =
     (if c = sep then [] # split_on sep cs
      else (case split_on sep cs of [] \<Rightarrow> [[c]] | piece # pieces \<Rightarrow> (c # piece) # pieces))"

definition parse_pair :: "string \<Rightarrow> string \<times> string" where
  "parse_pair piece =
     (urldecode (takeWhile (\<lambda>c. c \<noteq> CHR ''='') piece),
      urldecode (drop 1 (dropWhile (\<lambda>c. c \<noteq> CHR ''='') piece)))"

definition parse_query :: "string \<Rightarrow> URLSearchParams" where
  "parse_query s = map parse_pair (filter (\<lambda>piece. piece \<noteq> []) (split_on CHR ''&'' s))"

text \<open>
  The \<^verbatim>\<open>searchParams\<close> of the URL that a URL string denotes: the query is what stands
  between the first \<^verbatim>\<open>?\<close> and the fragment.
\<close>

definition url_query :: "string \<Rightarrow> string" where
  "url_query url = drop 1 (dropWhile (\<lambda>c. c \<noteq> CHR ''?'') (takeWhile (\<lambda>c. c \<noteq> CHR ''#'') url))"

definition searchParams :: "string \<Rightarrow> URLSearchParams" where
  "searchParams url = parse_query (url_query url)"

subsection \<open>getURL and parseURL\<close>


fun truthy_string :: "string option \<Rightarrow> bool" where
  "truthy_string None = False"
| "truthy_string (Some s) = (s \<noteq> [])"


text \<open>The \<^verbatim>\<open>href\<close> of the options: the string itself, or the \<^verbatim>\<open>src\<close> of the metadata.\<close>

fun href :: "image_src \<Rightarrow> string" where
  "href (SrcString s) = s"
| "href (SrcMeta m) = ImageMetadata.src m"



text \<open>The transform that \<^verbatim>\<open>parseURL\<close> returns; \<^verbatim>\<open>null\<close> and \<^verbatim>\<open>undefined\<close> are \<open>None\<close>.\<close>

record ParsedTransform =
  src :: string
  width :: "number option"
  height :: "number option"
  quality :: "string option"
  format :: "string option"
  lossless :: bool

definition parseURL :: "URLSearchParams \<Rightarrow> ParsedTransform option" where
  "parseURL query =
     (case get query ''href'' of
        None \<Rightarrow> None
      | Some s \<Rightarrow>
          if s = [] then None
          else
            (let width = get query ''w'';
                 height = get query ''h'';
                 quality = get query ''q'';
                 format = get query ''f'';
                 lossless = get query ''lossless''
             in Some \<lparr> ParsedTransform.src = s,
                       width = (if truthy_string width then map_option parseInt width else None),
                       height = (if truthy_string height then map_option parseInt height else None),
                       quality = quality,
                       format = format,
                       lossless = (lossless = Some ''1'') \<rparr>))"

subsection \<open>getHTMLAttributes\<close>

fun number_attr :: "number option \<Rightarrow> attr_value" where
  "number_attr None = AttrUndefined"
| "number_attr (Some n) = AttrNumber n"

text \<open>
  The object that \<^verbatim>\<open>getHTMLAttributes\<close> returns, as a map from property names: the rest
  of the destructuring, then \<^verbatim>\<open>width\<close>, \<^verbatim>\<open>height\<close>, \<^verbatim>\<open>loading\<close> and \<^verbatim>\<open>decoding\<close>,
  a later property replacing an earlier one of the same name.
\<close>

definition getHTMLAttributes :: "image_src Transform \<Rightarrow> (string \<rightharpoonup> attr_value)" where
  "getHTMLAttributes options =
     (let (width, height) = getTargetDimensions options;
          loading = (case Transform.loading options of None \<Rightarrow> ''lazy'' | Some l \<Rightarrow> l);
          decoding = (case Transform.decoding options of None \<Rightarrow> ''async'' | Some d \<Rightarrow> d)
      in (attrs options)
           (''width'' \<mapsto> number_attr width, ''height'' \<mapsto> number_attr height,
            ''loading'' \<mapsto> AttrString loading, ''decoding'' \<mapsto> AttrString decoding))"

subsection \<open>getSrcSet\<close>

text \<open>The MIME type of a format (names inherited from \<^verbatim>\<open>Object.prototype\<close> apart).\<close>

definition mimeType :: "string \<Rightarrow> string" where
  "mimeType fmt =
     (if fmt = ''svg'' then ''image/svg+xml''
      else if fmt = ''ico'' then ''image/vnd.microsoft.icon''
      else ''image/'' @ fmt)"

fun densityValue :: "density \<Rightarrow> number" where
  "densityValue (DensityNumber n) = n"
| "densityValue (DensityString s) = parseFloat s"

text \<open>
  \<^verbatim>\<open>Array.prototype.sort\<close> with no comparison function: the elements are ordered by
  their strings, compared code unit by code unit, and the sort is stable.
\<close>

definition Array_sort :: "number list \<Rightarrow> number list" where
  "Array_sort xs = sort_key number_toString xs"

text \<open>The width of the image and the largest width a candidate may have.\<close>

definition imageWidth :: "image_src Transform \<Rightarrow> number option" where
  "imageWidth options =
     (case Transform.src options of
        SrcString s \<Rightarrow> Transform.width options
      | SrcMeta m \<Rightarrow> Some (ImageMetadata.width m))"

definition maxWidth :: "image_src Transform \<Rightarrow> number" where
  "maxWidth options =
     (case Transform.src options of
        SrcString s \<Rightarrow> PosInf
      | SrcMeta m \<Rightarrow> ImageMetadata.width m)"

text \<open>
  The list \<^verbatim>\<open>allWidths\<close> of \<^verbatim>\<open>getSrcSet\<close>: a \<^verbatim>\<open>maxTargetWidth\<close> and a descriptor for
  every candidate, from the densities when there are densities, else from the widths.
\<close>

definition allWidths :: "image_src Transform \<Rightarrow> (number \<times> string) list" where
  "allWidths options =
     (case Transform.densities options of
        Some densities' \<Rightarrow>
          (case fst (getTargetDimensions options) of
             Some width' \<Rightarrow>
               (let densityValues = Array_sort (map densityValue densities') in
                map (\<lambda>(density, index).
                       (Math_min (Math_round (js_mul width' density)) (maxWidth options),
                        number_toString (densityValues ! index) @ ''x''))
                    (zip densityValues [0 ..< length densityValues]))
           | None \<Rightarrow> [])
      | None \<Rightarrow>
          (case Transform.widths options of
             Some widths' \<Rightarrow>
               map (\<lambda>width. (Math_min width (maxWidth options), number_toString width @ ''w'')) widths'
           | None \<Rightarrow> []))"

text \<open>The operator \<^verbatim>\<open>===\<close> between a number and an optional number.\<close>

fun strict_equal :: "number \<Rightarrow> number option \<Rightarrow> bool" where
  "strict_equal a None = False"
| "strict_equal a (Some b) = (a = b \<and> a \<noteq> NaN)"

record SrcSetValue =
  transform :: "image_src Transform"
  descriptor :: string
  attributes :: "(string \<times> string) list"

text \<open>The transform of one candidate: the options without their dimensions, then a width.\<close>

definition srcSetTransform :: "image_src Transform \<Rightarrow> number \<Rightarrow> image_src Transform" where
  "srcSetTransform options maxTargetWidth =
     (let transformWithoutDimensions = options \<lparr> Transform.width := None, Transform.height := None \<rparr> in
      if \<not> strict_equal maxTargetWidth (imageWidth options) then
        transformWithoutDimensions \<lparr> Transform.width := Some maxTargetWidth \<rparr>
      else if truthy_opt (Transform.width options) \<and> truthy_opt (Transform.height options) then
        transformWithoutDimensions \<lparr> Transform.width := Transform.width options,
                                     Transform.height := Transform.height options \<rparr>
      else transformWithoutDimensions)"

definition getSrcSet :: "image_src Transform \<Rightarrow> SrcSetValue list" where
  "getSrcSet options =
     (let format' = (case Transform.format options of None \<Rightarrow> ''avif'' | Some f \<Rightarrow> f) in
      foldl (\<lambda>srcSet (maxTargetWidth, descriptor').
               srcSet @ [\<lparr> transform = srcSetTransform options maxTargetWidth,
                            descriptor = descriptor',
                            attributes = [(''type'', mimeType format')] \<rparr>])
            [] (allWidths options))"

subsection \<open>validateOptions\<close>

text \<open>
  The configuration of the service, \<^verbatim>\<open>config.service.config\<close>. Its type is declared in
  a file of the package that is not part of the sources at hand; the four properties
  that \<^verbatim>\<open>validateOptions\<close> reads are taken as optional strings.
\<close>

record PrivateConfig =
  publicDir :: "string option"
  assets :: "string option"
  outDir :: "string option"
  defaultFormat :: "string option"

datatype error = AstroError string

text \<open>A call of the \<^verbatim>\<open>URL\<close> constructor: the input and the base, if any.\<close>

datatype url = URL string "string option"

text \<open>The string of a property that has been found truthy.\<close>

fun the_string :: "string option \<Rightarrow> string" where
  "the_string None = []"
| "the_string (Some s) = s"

definition startsWith :: "string \<Rightarrow> string \<Rightarrow> bool" where
  "startsWith s p = (take (length p) s = p)"

definition is_word :: "char \<Rightarrow> bool" where
  "is_word c = (is_alnum c \<or> c = CHR ''_'')"

text \<open>
  The pattern \<^verbatim>\<open>/^(?:\w+:)?\/\//\<close>: two slashes at the start, or after a run of word
  characters and a colon (the run is the longest one, since a colon is no word character).
\<close>

definition isAbsoluteURL :: "string \<Rightarrow> bool" where
  "isAbsoluteURL s =
     (startsWith s ''//'' \<or>
      (takeWhile is_word s \<noteq> [] \<and> startsWith (dropWhile is_word s) ''://''))"

text \<open>The pattern \<^verbatim>\<open>/^\/(?![@/])/\<close>: a slash that no \<^verbatim>\<open>@\<close> and no slash follows.\<close>

definition isPublicAsset :: "string \<Rightarrow> bool" where
  "isPublicAsset s =
     (case s of
        [] \<Rightarrow> False
      | c # cs \<Rightarrow> c = CHR ''/'' \<and> (case cs of [] \<Rightarrow> True | d # ds \<Rightarrow> d \<noteq> CHR ''@'' \<and> d \<noteq> CHR ''/''))"

definition isBundledAsset :: "string \<Rightarrow> string \<Rightarrow> bool" where
  "isBundledAsset assets_dir s = startsWith s (''/'' @ assets_dir @ ''/'')"

text \<open>
  The first part of \<^verbatim>\<open>validateOptions\<close>, up to the end of the tests on \<^verbatim>\<open>src\<close>: an
  error, or the options as they are then. The library function \<^verbatim>\<open>imageInformation\<close> is
  a parameter, which returns the intrinsic width and height of the image at a URL, or
  nothing; exceptions of the \<^verbatim>\<open>URL\<close> constructor and of the library are not modelled.
  The assertion \<^verbatim>\<open>assert.ok(isPublicAsset)\<close> stands where the earlier test on the three
  patterns has left no other case, so it cannot fail and has no branch here.
\<close>

definition validate_src ::
  "(url \<Rightarrow> (number \<times> number) option) \<Rightarrow> raw_src Transform \<Rightarrow> PrivateConfig
     \<Rightarrow> error + raw_src Transform" where
  \<open>validate_src imageInformation options config =
     (if \<not> truthy_string (publicDir config) \<or> \<not> truthy_string (assets config)
         \<or> \<not> truthy_string (outDir config) then
        Inl (AstroError
          ''This image service cannot be used directly, you must use the provided Astro integration!'')
      else
        (case Transform.src options of
           RawMissing \<Rightarrow> Inl (AstroError ''`src` is missing'')
         | RawString s \<Rightarrow>
             if s = [] then Inl (AstroError ''`src` is missing'')
             else if \<not> isAbsoluteURL s \<and> \<not> isBundledAsset (the_string (assets config)) s
                     \<and> \<not> isPublicAsset s then
               Inl (AstroError (''Local image not correctly imported: "'' @ s @ ''"''))
             else if \<not> truthy_opt (Transform.width options)
                     \<or> \<not> truthy_opt (Transform.height options) then
               (let url =
                      (if isAbsoluteURL s then
                         (if startsWith s ''//'' then URL (''https://'' @ s) None else URL s None)
                       else if isBundledAsset (the_string (assets config)) s then
                         URL s (outDir config)
                       else URL s (publicDir config))
                in case imageInformation url of
                     Some (info_width, info_height) \<Rightarrow>
                       Inr (options \<lparr> Transform.width := Some info_width,
                                      Transform.height := Some info_height \<rparr>)
                   | None \<Rightarrow>
                       Inl (AstroError
                         (''`width` and `height` must be specified for "'' @ s @ ''"'')))
             else Inr options
         | RawMeta m \<Rightarrow>
             if ImageMetadata.format m = ''svg'' \<and> Transform.format options = None then
               Inr (options \<lparr> Transform.format := Some ''svg'' \<rparr>)
             else if ImageMetadata.format m \<noteq> ''svg'' \<and> Transform.format options = Some ''svg'' then
               Inl (AstroError
                 (''Cannot transform from "'' @ ImageMetadata.format m @ ''" to "svg"''))
             else Inr options
         | RawOther type_of \<Rightarrow>
             Inl (AstroError
               (''Expected `src` to be of type `string | ImageMetadata`, but got `''
                @ type_of @ ''` instead''))))\<close>

text \<open>
  \<^verbatim>\<open>validateOptions\<close>: the tests on \<^verbatim>\<open>src\<close>, then the test on \<^verbatim>\<open>densities\<close> and
  \<^verbatim>\<open>widths\<close>, the rounding of the dimensions and the choice of the format. The options
  are returned with these changes.
\<close>

definition validateOptions ::
  "(url \<Rightarrow> (number \<times> number) option) \<Rightarrow> raw_src Transform \<Rightarrow> PrivateConfig
     \<Rightarrow> error + raw_src Transform" where
  "validateOptions imageInformation options config =
     (case validate_src imageInformation options config of
        Inl e \<Rightarrow> Inl e
      | Inr options1 \<Rightarrow>
          if Transform.densities options1 \<noteq> None \<and> Transform.widths options1 \<noteq> None then
            Inl (AstroError ''`densities` and `widths` cannot be used together'')
          else
            (let options2 =
                   (if truthy_opt (Transform.width options1)
                    then options1 \<lparr> Transform.width := map_option Math_round (Transform.width options1) \<rparr>
                    else options1);
                 options3 =
                   (if truthy_opt (Transform.height options2)
                    then options2 \<lparr> Transform.height := map_option Math_round (Transform.height options2) \<rparr>
                    else options2)
             in Inr (if \<not> truthy_string (Transform.format options3) then
                       options3 \<lparr> Transform.format :=
                         Some (case defaultFormat config of None \<Rightarrow> ''avif'' | Some f \<Rightarrow> f) \<rparr>
                     else if Transform.format options3 = Some ''jpg'' then
                       options3 \<lparr> Transform.format := Some ''jpeg'' \<rparr>
                     else options3)))"

section \<open>Properties\<close>

subsection \<open>Arithmetic of the number model\<close>

lemma floor_rat_numeral [simp]:
  "\<lfloor>numeral a / numeral b :: rat\<rfloor> = numeral a div numeral b"
  using floor_divide_of_int_eq [of "numeral a" "numeral b", where ?'a = rat] by simp

lemma floor_rat_one_numeral [simp]:
  "\<lfloor>1 / numeral b :: rat\<rfloor> = 1 div numeral b"
  using floor_divide_of_int_eq [of 1 "numeral b", where ?'a = rat] by simp

lemma floor_rat_neg_numeral [simp]:
  "\<lfloor>- (numeral a / numeral b) :: rat\<rfloor> = - numeral a div numeral b"
  using floor_divide_of_int_eq [of "- numeral a" "numeral b", where ?'a = rat] by simp



subsection \<open>Dimension inference\<close>




subsection \<open>parseURL\<close>

text \<open>
  C9, as the claim states it, fails twice. \<^verbatim>\<open>get\<close> returns the first value of a name, so
  the query \<^verbatim>\<open>href=&href=a\<close> has a non-empty \<^verbatim>\<open>href\<close> parameter and \<^verbatim>\<open>parseURL\<close> returns
  \<^verbatim>\<open>undefined\<close>. And in the query \<^verbatim>\<open>href=a&w=\<close> the parameter \<^verbatim>\<open>w\<close> is present, its
  base-10 parse is \<^verbatim>\<open>NaN\<close>, and the width of the result is \<^verbatim>\<open>undefined\<close>.
\<close>

theorem parseURL_as_stated_counterexample:
  "(''href'', ''a'') \<in> set (searchParams ''/_image?href=&href=a'') \<and>
   parseURL (searchParams ''/_image?href=&href=a'') = None \<and>
   get (searchParams ''/_image?href=a&w='') ''href'' = Some ''a'' \<and>
   get (searchParams ''/_image?href=a&w='') ''w'' = Some [] \<and>
   map_option ParsedTransform.width (parseURL (searchParams ''/_image?href=a&w='')) = Some None \<and>
   map_option parseInt (get (searchParams ''/_image?href=a&w='') ''w'') = Some NaN"
  by code_simp

text \<open>
  C9, amended: \<^verbatim>\<open>parseURL\<close> returns \<^verbatim>\<open>undefined\<close> exactly when the query has no \<^verbatim>\<open>href\<close>
  parameter or the value of its first \<^verbatim>\<open>href\<close> parameter is empty. Otherwise it returns a
  record whose \<^verbatim>\<open>src\<close> is that value, whose width and height are the base-10 integer
  parses of the first \<^verbatim>\<open>w\<close> and \<^verbatim>\<open>h\<close> values when these are present and not empty
  (\<^verbatim>\<open>undefined\<close> otherwise), and whose \<^verbatim>\<open>lossless\<close> field is true exactly when the first
  \<^verbatim>\<open>lossless\<close> value is \<^verbatim>\<open>1\<close>.
\<close>

theorem parseURL_result:
  "(parseURL query = None \<longleftrightarrow> get query ''href'' = None \<or> get query ''href'' = Some []) \<and>
   (\<forall>s. get query ''href'' = Some s \<and> s \<noteq> [] \<longrightarrow>
      (\<exists>r. parseURL query = Some r \<and>
           ParsedTransform.src r = s \<and>
           ParsedTransform.width r =
             (case get query ''w'' of
                None \<Rightarrow> None | Some w \<Rightarrow> if w = [] then None else Some (parseInt w)) \<and>
           ParsedTransform.height r =
             (case get query ''h'' of
                None \<Rightarrow> None | Some h \<Rightarrow> if h = [] then None else Some (parseInt h)) \<and>
           (ParsedTransform.lossless r \<longleftrightarrow> get query ''lossless'' = Some ''1'')))"
  by (auto simp: parseURL_def Let_def split: option.splits)

theorem parseURL_result_witness:
  "get (searchParams ''/_image?href=%2Fa.png&w=300&h=&lossless=1'') ''href'' = Some ''/a.png'' \<and>
   (\<exists>r. parseURL (searchParams ''/_image?href=%2Fa.png&w=300&h=&lossless=1'') = Some r \<and>
        ParsedTransform.src r = ''/a.png'' \<and>
        ParsedTransform.width r = Some (Fin 300) \<and>
        ParsedTransform.height r = None \<and>
        ParsedTransform.lossless r)"
proof -
  have q: "searchParams ''/_image?href=%2Fa.png&w=300&h=&lossless=1''
             = [(''href'', ''/a.png''), (''w'', ''300''), (''h'', []), (''lossless'', ''1'')]"
    by code_simp
  have p: "parseInt ''300'' = Fin 300"
    by code_simp
  show ?thesis
    using parseURL_result [of "searchParams ''/_image?href=%2Fa.png&w=300&h=&lossless=1''"]
    by (simp add: q p get_def)
qed

subsection \<open>HTML attributes\<close>

text \<open>
  C7: \<^verbatim>\<open>getHTMLAttributes\<close> returns every other property of the options unchanged, with
  \<^verbatim>\<open>width\<close> and \<^verbatim>\<open>height\<close> as \<^verbatim>\<open>getTargetDimensions\<close> computes them, \<^verbatim>\<open>loading\<close>
  defaulting to \<^verbatim>\<open>lazy\<close> and \<^verbatim>\<open>decoding\<close> to \<^verbatim>\<open>async\<close> when they are not supplied; and
  \<^verbatim>\<open>src\<close>, \<^verbatim>\<open>format\<close>, \<^verbatim>\<open>formats\<close>, \<^verbatim>\<open>quality\<close>, \<^verbatim>\<open>densities\<close> and \<^verbatim>\<open>widths\<close> are not
  properties of the result (the named properties of the options being its fields, not
  entries of \<open>attrs\<close>).
\<close>

theorem getHTMLAttributes_frame:
  "(\<forall>k. k \<notin> {''width'', ''height'', ''loading'', ''decoding''} \<longrightarrow>
        getHTMLAttributes options k = attrs options k) \<and>
   getHTMLAttributes options ''width'' = Some (number_attr (fst (getTargetDimensions options))) \<and>
   getHTMLAttributes options ''height'' = Some (number_attr (snd (getTargetDimensions options))) \<and>
   getHTMLAttributes options ''loading'' =
     Some (AttrString (case Transform.loading options of None \<Rightarrow> ''lazy'' | Some l \<Rightarrow> l)) \<and>
   getHTMLAttributes options ''decoding'' =
     Some (AttrString (case Transform.decoding options of None \<Rightarrow> ''async'' | Some d \<Rightarrow> d)) \<and>
   (dom (attrs options) \<inter>
      {''src'', ''width'', ''height'', ''format'', ''formats'', ''quality'', ''densities'',
       ''widths'', ''loading'', ''decoding''} = {} \<longrightarrow>
    dom (getHTMLAttributes options) \<inter>
      {''src'', ''format'', ''formats'', ''quality'', ''densities'', ''widths''} = {})"
  by (auto simp: getHTMLAttributes_def Let_def split: prod.splits)

theorem getHTMLAttributes_frame_witness:
  "''alt'' \<notin> {''width'', ''height'', ''loading'', ''decoding''} \<and>
   getHTMLAttributes ((only_src (SrcMeta \<lparr> ImageMetadata.src = ''/a.png'', width = Fin 1600,
        height = Fin 900, format = ''png'' \<rparr>))
      \<lparr> Transform.width := Some (Fin 400), Transform.format := Some ''webp'',
        attrs := [''alt'' \<mapsto> AttrString ''A bridge''] \<rparr>) ''alt'' = Some (AttrString ''A bridge'') \<and>
   getHTMLAttributes ((only_src (SrcMeta \<lparr> ImageMetadata.src = ''/a.png'', width = Fin 1600,
        height = Fin 900, format = ''png'' \<rparr>))
      \<lparr> Transform.width := Some (Fin 400), Transform.format := Some ''webp'',
        attrs := [''alt'' \<mapsto> AttrString ''A bridge''] \<rparr>) ''width'' = Some (AttrNumber (Fin 400)) \<and>
   getHTMLAttributes ((only_src (SrcMeta \<lparr> ImageMetadata.src = ''/a.png'', width = Fin 1600,
        height = Fin 900, format = ''png'' \<rparr>))
      \<lparr> Transform.width := Some (Fin 400), Transform.format := Some ''webp'',
        attrs := [''alt'' \<mapsto> AttrString ''A bridge''] \<rparr>) ''height'' = Some (AttrNumber (Fin 225)) \<and>
   getHTMLAttributes ((only_src (SrcMeta \<lparr> ImageMetadata.src = ''/a.png'', width = Fin 1600,
        height = Fin 900, format = ''png'' \<rparr>))
      \<lparr> Transform.width := Some (Fin 400), Transform.format := Some ''webp'',
        attrs := [''alt'' \<mapsto> AttrString ''A bridge''] \<rparr>) ''loading'' = Some (AttrString ''lazy'') \<and>
   getHTMLAttributes ((only_src (SrcMeta \<lparr> ImageMetadata.src = ''/a.png'', width = Fin 1600,
        height = Fin 900, format = ''png'' \<rparr>))
      \<lparr> Transform.width := Some (Fin 400), Transform.format := Some ''webp'',
        attrs := [''alt'' \<mapsto> AttrString ''A bridge''] \<rparr>) ''decoding'' = Some (AttrString ''async'') \<and>
   getHTMLAttributes ((only_src (SrcMeta \<lparr> ImageMetadata.src = ''/a.png'', width = Fin 1600,
        height = Fin 900, format = ''png'' \<rparr>))
      \<lparr> Transform.width := Some (Fin 400), Transform.format := Some ''webp'',
        attrs := [''alt'' \<mapsto> AttrString ''A bridge''] \<rparr>) ''format'' = None"
proof -
  let ?X = "(only_src (SrcMeta \<lparr> ImageMetadata.src = ''/a.png'', width = Fin 1600,
        height = Fin 900, format = ''png'' \<rparr>))
      \<lparr> Transform.width := Some (Fin 400), Transform.format := Some ''webp'',
        attrs := [''alt'' \<mapsto> AttrString ''A bridge''] \<rparr>"
  note frame = getHTMLAttributes_frame [of ?X]
  have d: "getTargetDimensions ?X = (Some (Fin 400), Some (Fin 225))"
    by (simp add: getTargetDimensions_def only_src_def)
  have l: "Transform.loading ?X = None" "Transform.decoding ?X = None"
    by (simp_all add: only_src_def)
  have a: "attrs ?X ''alt'' = Some (AttrString ''A bridge'')" "attrs ?X ''format'' = None"
    by (simp_all add: only_src_def)
  have k: "''alt'' \<notin> {''width'', ''height'', ''loading'', ''decoding''}"
    "''format'' \<notin> {''width'', ''height'', ''loading'', ''decoding''}"
    by simp_all
  from frame k a have 1: "getHTMLAttributes ?X ''alt'' = Some (AttrString ''A bridge'')"
    and 2: "getHTMLAttributes ?X ''format'' = None"
    by metis+
  from frame d have 3: "getHTMLAttributes ?X ''width'' = Some (AttrNumber (Fin 400))"
    and 4: "getHTMLAttributes ?X ''height'' = Some (AttrNumber (Fin 225))"
    by simp_all
  from frame l have 5: "getHTMLAttributes ?X ''loading'' = Some (AttrString ''lazy'')"
    and 6: "getHTMLAttributes ?X ''decoding'' = Some (AttrString ''async'')"
    by simp_all
  from k(1) 1 2 3 4 5 6 show ?thesis by blast
qed

subsection \<open>Candidates of the srcset\<close>

lemma map_zip_index:
  "map (\<lambda>(x, i). f x (xs ! i)) (zip xs [0 ..< length xs]) = map (\<lambda>x. f x x) xs"
  by (rule nth_equalityI) simp_all

lemma foldl_snoc_map:
  "foldl (\<lambda>acc x. acc @ [g x]) a xs = a @ map g xs"
  by (induction xs arbitrary: a) simp_all

lemma Math_min_PosInf [simp]: "Math_min x PosInf = x"
  by (cases x) simp_all

lemma allWidths_densities:
  "Transform.densities options = Some ds \<Longrightarrow> fst (getTargetDimensions options) = Some w \<Longrightarrow>
   allWidths options =
     map (\<lambda>d. (Math_min (Math_round (js_mul w d)) (maxWidth options), number_toString d @ ''x''))
       (Array_sort (map densityValue ds))"
  using map_zip_index [of "\<lambda>d e. (Math_min (Math_round (js_mul w d)) (maxWidth options), number_toString e @ ''x'')"
      "Array_sort (map densityValue ds)"]
  by (simp add: allWidths_def Let_def)

lemma getSrcSet_map:
  "getSrcSet options =
     map (\<lambda>(maxTargetWidth, d).
            \<lparr> transform = srcSetTransform options maxTargetWidth, descriptor = d,
              attributes = [(''type'', mimeType (case Transform.format options of None \<Rightarrow> ''avif'' | Some f \<Rightarrow> f))] \<rparr>)
         (allWidths options)"
  using foldl_snoc_map [of "\<lambda>(maxTargetWidth, d).
            \<lparr> transform = srcSetTransform options maxTargetWidth, descriptor = d,
              attributes = [(''type'', mimeType (case Transform.format options of None \<Rightarrow> ''avif'' | Some f \<Rightarrow> f))] \<rparr>" "[]" "allWidths options"]
  by (simp add: getSrcSet_def Let_def case_prod_unfold)

text \<open>
  C5: the list \<^verbatim>\<open>allWidths\<close> from which \<^verbatim>\<open>getSrcSet\<close> makes its candidates, one after
  the other. With densities and a defined target width \<open>w\<close>, each candidate has the
  \<^verbatim>\<open>maxTargetWidth\<close> \<open>min (round (w * density)) maxWidth\<close> for its density; without
  densities and with widths, each has \<open>min width maxWidth\<close> and the descriptor of the
  requested width followed by \<^verbatim>\<open>w\<close>; \<open>maxWidth\<close> is the intrinsic width of an
  \<^verbatim>\<open>ImageMetadata\<close> source and does not clamp for a string source; with neither
  densities nor widths the result is empty. The candidates of \<^verbatim>\<open>getSrcSet\<close> carry these
  descriptors, and the width of a candidate's transform is its \<^verbatim>\<open>maxTargetWidth\<close> unless
  that is the width of the image.
\<close>

theorem getSrcSet_candidate_widths:
  "(\<forall>ds w. Transform.densities options = Some ds \<and> fst (getTargetDimensions options) = Some w \<longrightarrow>
      allWidths options =
        map (\<lambda>d. (Math_min (Math_round (js_mul w d)) (maxWidth options), number_toString d @ ''x''))
          (Array_sort (map densityValue ds))) \<and>
   (\<forall>ws. Transform.densities options = None \<and> Transform.widths options = Some ws \<longrightarrow>
      allWidths options =
        map (\<lambda>w. (Math_min w (maxWidth options), number_toString w @ ''w'')) ws) \<and>
   (\<forall>m. Transform.src options = SrcMeta m \<longrightarrow> maxWidth options = ImageMetadata.width m) \<and>
   (\<forall>s x. Transform.src options = SrcString s \<longrightarrow> Math_min x (maxWidth options) = x) \<and>
   (Transform.densities options = None \<and> Transform.widths options = None \<longrightarrow>
      getSrcSet options = []) \<and>
   map descriptor (getSrcSet options) = map snd (allWidths options) \<and>
   map transform (getSrcSet options) = map (\<lambda>c. srcSetTransform options (fst c)) (allWidths options) \<and>
   (\<forall>c \<in> set (allWidths options). \<not> strict_equal (fst c) (imageWidth options) \<longrightarrow>
      Transform.width (srcSetTransform options (fst c)) = Some (fst c))"
proof -
  have 1: "\<forall>ds w. Transform.densities options = Some ds \<and> fst (getTargetDimensions options) = Some w \<longrightarrow>
      allWidths options =
        map (\<lambda>d. (Math_min (Math_round (js_mul w d)) (maxWidth options), number_toString d @ ''x''))
          (Array_sort (map densityValue ds))"
    by (simp add: allWidths_densities)
  have 2: "\<forall>ws. Transform.densities options = None \<and> Transform.widths options = Some ws \<longrightarrow>
      allWidths options =
        map (\<lambda>w. (Math_min w (maxWidth options), number_toString w @ ''w'')) ws"
    by (simp add: allWidths_def)
  have 3: "\<forall>m. Transform.src options = SrcMeta m \<longrightarrow> maxWidth options = ImageMetadata.width m"
    by (simp add: maxWidth_def)
  have 4: "\<forall>s x. Transform.src options = SrcString s \<longrightarrow> Math_min x (maxWidth options) = x"
    by (simp add: maxWidth_def)
  have 5: "Transform.densities options = None \<and> Transform.widths options = None \<longrightarrow>
      getSrcSet options = []"
    by (simp add: getSrcSet_map allWidths_def)
  have 6: "map descriptor (getSrcSet options) = map snd (allWidths options)"
    by (simp add: getSrcSet_map case_prod_unfold comp_def)
  have 7: "map transform (getSrcSet options) = map (\<lambda>c. srcSetTransform options (fst c)) (allWidths options)"
    by (simp add: getSrcSet_map case_prod_unfold comp_def)
  have 8: "\<forall>c \<in> set (allWidths options). \<not> strict_equal (fst c) (imageWidth options) \<longrightarrow>
      Transform.width (srcSetTransform options (fst c)) = Some (fst c)"
    by (simp add: srcSetTransform_def)
  from 1 2 3 4 5 6 7 8 show ?thesis by blast
qed

theorem getSrcSet_candidate_widths_witness:
  "fst (getTargetDimensions ((only_src (SrcMeta \<lparr> ImageMetadata.src = ''/a.png'', width = Fin 1600,
        height = Fin 900, format = ''png'' \<rparr>))
      \<lparr> Transform.width := Some (Fin 1000),
        Transform.densities := Some [DensityNumber (Fin 2), DensityNumber (Fin 1), DensityString ''1.5x''] \<rparr>))
     = Some (Fin 1000) \<and>
   allWidths ((only_src (SrcMeta \<lparr> ImageMetadata.src = ''/a.png'', width = Fin 1600,
        height = Fin 900, format = ''png'' \<rparr>))
      \<lparr> Transform.width := Some (Fin 1000),
        Transform.densities := Some [DensityNumber (Fin 2), DensityNumber (Fin 1), DensityString ''1.5x''] \<rparr>)
     = [(Fin 1000, ''1x''), (Fin 1500, ''1.5x''), (Fin 1600, ''2x'')] \<and>
   allWidths ((only_src (SrcMeta \<lparr> ImageMetadata.src = ''/a.png'', width = Fin 1600,
        height = Fin 900, format = ''png'' \<rparr>))
      \<lparr> Transform.widths := Some [Fin 400, Fin 3000] \<rparr>)
     = [(Fin 400, ''400w''), (Fin 1600, ''3000w'')] \<and>
   allWidths ((only_src (SrcString ''/a.png'')) \<lparr> Transform.widths := Some [Fin 400, Fin 3000] \<rparr>)
     = [(Fin 400, ''400w''), (Fin 3000, ''3000w'')] \<and>
   getSrcSet (only_src (SrcString ''/a.png'')) = [] \<and>
   map descriptor (getSrcSet ((only_src (SrcString ''/a.png''))
      \<lparr> Transform.widths := Some [Fin 400, Fin 3000] \<rparr>)) = [''400w'', ''3000w''] \<and>
   map (\<lambda>c. Transform.width (transform c)) (getSrcSet ((only_src (SrcString ''/a.png''))
      \<lparr> Transform.widths := Some [Fin 400, Fin 3000] \<rparr>)) = [Some (Fin 400), Some (Fin 3000)]"
proof -
  let ?m = "\<lparr> ImageMetadata.src = ''/a.png'', width = Fin 1600, height = Fin 900, format = ''png'' \<rparr>"
  let ?D = "(only_src (SrcMeta ?m))
      \<lparr> Transform.width := Some (Fin 1000),
        Transform.densities := Some [DensityNumber (Fin 2), DensityNumber (Fin 1), DensityString ''1.5x''] \<rparr>"
  let ?W = "(only_src (SrcMeta ?m)) \<lparr> Transform.widths := Some [Fin 400, Fin 3000] \<rparr>"
  let ?S = "(only_src (SrcString ''/a.png'')) \<lparr> Transform.widths := Some [Fin 400, Fin 3000] \<rparr>"
  let ?E = "only_src (SrcString ''/a.png'') :: image_src Transform"
  have t: "fst (getTargetDimensions ?D) = Some (Fin 1000)"
    by (simp add: getTargetDimensions_def only_src_def)
  have dd: "Transform.densities ?D
      = Some [DensityNumber (Fin 2), DensityNumber (Fin 1), DensityString ''1.5x'']"
    by (simp add: only_src_def)
  have ev: "map (\<lambda>d. (Math_min (Math_round (js_mul (Fin 1000) d)) (maxWidth ?D), number_toString d @ ''x''))
          (Array_sort (map densityValue [DensityNumber (Fin 2), DensityNumber (Fin 1), DensityString ''1.5x'']))
      = [(Fin 1000, ''1x''), (Fin 1500, ''1.5x''), (Fin 1600, ''2x'')]"
    by code_simp
  have 1: "allWidths ?D = [(Fin 1000, ''1x''), (Fin 1500, ''1.5x''), (Fin 1600, ''2x'')]"
    using getSrcSet_candidate_widths [of ?D] t dd ev by simp
  have wv: "map (\<lambda>w. (Math_min w (maxWidth ?W), number_toString w @ ''w'')) [Fin 400, Fin 3000]
      = [(Fin 400, ''400w''), (Fin 1600, ''3000w'')]"
    by code_simp
  have 2: "allWidths ?W = [(Fin 400, ''400w''), (Fin 1600, ''3000w'')]"
    using getSrcSet_candidate_widths [of ?W] wv by (simp add: only_src_def)
  have sv: "map (\<lambda>w. (Math_min w (maxWidth ?S), number_toString w @ ''w'')) [Fin 400, Fin 3000]
      = [(Fin 400, ''400w''), (Fin 3000, ''3000w'')]"
    by code_simp
  have 3: "allWidths ?S = [(Fin 400, ''400w''), (Fin 3000, ''3000w'')]"
    using getSrcSet_candidate_widths [of ?S] sv by (simp add: only_src_def)
  have 4: "getSrcSet ?E = []"
    using getSrcSet_candidate_widths [of ?E] by (simp add: only_src_def)
  have 5: "map descriptor (getSrcSet ?S) = [''400w'', ''3000w'']"
    using getSrcSet_candidate_widths [of ?S] 3 by simp
  note S = getSrcSet_candidate_widths [of ?S]
  from S have tr: "map transform (getSrcSet ?S) = map (\<lambda>c. srcSetTransform ?S (fst c)) (allWidths ?S)"
    by blast
  from S have wd: "\<forall>c \<in> set (allWidths ?S). \<not> strict_equal (fst c) (imageWidth ?S) \<longrightarrow>
      Transform.width (srcSetTransform ?S (fst c)) = Some (fst c)"
    by blast
  have ne: "\<not> strict_equal (Fin 400) (imageWidth ?S)" "\<not> strict_equal (Fin 3000) (imageWidth ?S)"
    by (simp_all add: imageWidth_def only_src_def)
  from wd ne have ws: "Transform.width (srcSetTransform ?S (Fin 400)) = Some (Fin 400)"
    "Transform.width (srcSetTransform ?S (Fin 3000)) = Some (Fin 3000)"
    unfolding 3 by simp_all
  have "map (\<lambda>c. Transform.width (transform c)) (getSrcSet ?S)
      = map Transform.width (map transform (getSrcSet ?S))"
    by (simp add: comp_def)
  also have "\<dots> = map Transform.width (map (\<lambda>c. srcSetTransform ?S (fst c)) (allWidths ?S))"
    by (simp only: tr)
  also have "\<dots> = [Some (Fin 400), Some (Fin 3000)]"
    unfolding 3 using ws by simp
  finally have 6: "map (\<lambda>c. Transform.width (transform c)) (getSrcSet ?S)
      = [Some (Fin 400), Some (Fin 3000)]" .
  from t 1 2 3 4 5 6 show ?thesis by simp
qed

text \<open>
  C2 fails on the code: \<^verbatim>\<open>sort()\<close> is called with no comparison function, so the density
  values are ordered by their strings. For the densities \<^verbatim>\<open>[2, 10]\<close> on a string source of
  width 100 the candidates come out as \<^verbatim>\<open>10x\<close> (width 1000), then \<^verbatim>\<open>2x\<close> (width 200).
\<close>

theorem getSrcSet_densities_not_numeric_order:
  "map descriptor (getSrcSet ((only_src (SrcString ''/a.png''))
       \<lparr> Transform.width := Some (Fin 100), Transform.height := Some (Fin 50),
         Transform.densities := Some [DensityNumber (Fin 2), DensityNumber (Fin 10)] \<rparr>))
     = [''10x'', ''2x''] \<and>
   map (\<lambda>c. Transform.width (transform c)) (getSrcSet ((only_src (SrcString ''/a.png''))
       \<lparr> Transform.width := Some (Fin 100), Transform.height := Some (Fin 50),
         Transform.densities := Some [DensityNumber (Fin 2), DensityNumber (Fin 10)] \<rparr>))
     = [Some (Fin 1000), Some (Fin 200)]"
  by code_simp

subsection \<open>Validation\<close>




lemma validateOptions_format:
  "validate_src ii options config = Inr options1 \<Longrightarrow>
   validateOptions ii options config = Inr options' \<Longrightarrow>
   Transform.format options' =
     (if \<not> truthy_string (Transform.format options1)
      then Some (case defaultFormat config of None \<Rightarrow> ''avif'' | Some f \<Rightarrow> f)
      else if Transform.format options1 = Some ''jpg'' then Some ''jpeg''
      else Transform.format options1)"
  by (auto simp: validateOptions_def Let_def split: if_splits)

lemma validate_src_format:
  "validate_src ii options config = Inr options1 \<Longrightarrow>
   Transform.format options1 =
     (case Transform.src options of
        RawMeta m \<Rightarrow> if ImageMetadata.format m = ''svg'' \<and> Transform.format options = None
                     then Some ''svg'' else Transform.format options
      | _ \<Rightarrow> Transform.format options)"
  by (auto simp: validate_src_def Let_def split: if_splits raw_src.splits option.splits)

lemma validateOptions_Inr_validate_src:
  "validateOptions ii options config = Inr options' \<Longrightarrow>
   \<exists>options1. validate_src ii options config = Inr options1"
  by (cases "validate_src ii options config") (simp_all add: validateOptions_def)

text \<open>
  C6: the format rules of \<^verbatim>\<open>validateOptions\<close>, in the order of the code. When it returns:
  for an \<^verbatim>\<open>ImageMetadata\<close> source of format \<^verbatim>\<open>svg\<close> and no requested format the format is
  \<^verbatim>\<open>svg\<close>; otherwise, with no requested format, it is the configured \<^verbatim>\<open>defaultFormat\<close>,
  which defaults to \<^verbatim>\<open>avif\<close>; a requested \<^verbatim>\<open>jpg\<close> becomes \<^verbatim>\<open>jpeg\<close>. And for an
  \<^verbatim>\<open>ImageMetadata\<close> source whose format is not \<^verbatim>\<open>svg\<close>, requesting \<^verbatim>\<open>svg\<close> raises an error.
\<close>

theorem validateOptions_format_rules:
  "(\<forall>m options'. Transform.src options = RawMeta m \<and> ImageMetadata.format m = ''svg'' \<and>
        Transform.format options = None \<and> validateOptions ii options config = Inr options' \<longrightarrow>
      Transform.format options' = Some ''svg'') \<and>
   (\<forall>m. Transform.src options = RawMeta m \<and> ImageMetadata.format m \<noteq> ''svg'' \<and>
        Transform.format options = Some ''svg'' \<longrightarrow>
      (\<exists>msg. validateOptions ii options config = Inl (AstroError msg))) \<and>
   (\<forall>options'. Transform.format options = None \<and>
        \<not> (\<exists>m. Transform.src options = RawMeta m \<and> ImageMetadata.format m = ''svg'') \<and>
        validateOptions ii options config = Inr options' \<longrightarrow>
      Transform.format options' =
        Some (case defaultFormat config of None \<Rightarrow> ''avif'' | Some f \<Rightarrow> f)) \<and>
   (\<forall>options'. Transform.format options = Some ''jpg'' \<and>
        validateOptions ii options config = Inr options' \<longrightarrow>
      Transform.format options' = Some ''jpeg'')"
proof -
  have a: "\<forall>m options'. Transform.src options = RawMeta m \<and> ImageMetadata.format m = ''svg'' \<and>
        Transform.format options = None \<and> validateOptions ii options config = Inr options' \<longrightarrow>
      Transform.format options' = Some ''svg''"
  proof (intro allI impI)
    fix m options'
    assume h: "Transform.src options = RawMeta m \<and> ImageMetadata.format m = ''svg'' \<and>
        Transform.format options = None \<and> validateOptions ii options config = Inr options'"
    then obtain options1 where v: "validate_src ii options config = Inr options1"
      using validateOptions_Inr_validate_src by blast
    from h validate_src_format [OF v] have "Transform.format options1 = Some ''svg''" by simp
    with validateOptions_format [OF v] h show "Transform.format options' = Some ''svg''" by simp
  qed
  have b: "\<forall>m. Transform.src options = RawMeta m \<and> ImageMetadata.format m \<noteq> ''svg'' \<and>
        Transform.format options = Some ''svg'' \<longrightarrow>
      (\<exists>msg. validateOptions ii options config = Inl (AstroError msg))"
    by (auto simp: validateOptions_def validate_src_def)
  have c: "\<forall>options'. Transform.format options = None \<and>
        \<not> (\<exists>m. Transform.src options = RawMeta m \<and> ImageMetadata.format m = ''svg'') \<and>
        validateOptions ii options config = Inr options' \<longrightarrow>
      Transform.format options' =
        Some (case defaultFormat config of None \<Rightarrow> ''avif'' | Some f \<Rightarrow> f)"
  proof (intro allI impI)
    fix options'
    assume h: "Transform.format options = None \<and>
        \<not> (\<exists>m. Transform.src options = RawMeta m \<and> ImageMetadata.format m = ''svg'') \<and>
        validateOptions ii options config = Inr options'"
    then obtain options1 where v: "validate_src ii options config = Inr options1"
      using validateOptions_Inr_validate_src by blast
    from h validate_src_format [OF v] have "Transform.format options1 = None"
      by (auto split: raw_src.splits)
    with validateOptions_format [OF v] h show "Transform.format options' =
        Some (case defaultFormat config of None \<Rightarrow> ''avif'' | Some f \<Rightarrow> f)" by simp
  qed
  have d: "\<forall>options'. Transform.format options = Some ''jpg'' \<and>
        validateOptions ii options config = Inr options' \<longrightarrow>
      Transform.format options' = Some ''jpeg''"
  proof (intro allI impI)
    fix options'
    assume h: "Transform.format options = Some ''jpg'' \<and>
        validateOptions ii options config = Inr options'"
    then obtain options1 where v: "validate_src ii options config = Inr options1"
      using validateOptions_Inr_validate_src by blast
    from h validate_src_format [OF v] have "Transform.format options1 = Some ''jpg''"
      by (auto split: raw_src.splits)
    with validateOptions_format [OF v] h show "Transform.format options' = Some ''jpeg''" by simp
  qed
  from a b c d show ?thesis by blast
qed

theorem validateOptions_format_rules_witness:
  "validateOptions (\<lambda>u. None)
     (only_src (RawMeta \<lparr> ImageMetadata.src = ''/_astro/logo.svg'', width = Fin 64,
         height = Fin 64, format = ''svg'' \<rparr>))
     \<lparr> publicDir = Some ''file:///site/public/'', assets = Some ''_astro'',
       outDir = Some ''file:///site/dist/'', defaultFormat = None \<rparr>
     = Inr ((only_src (RawMeta \<lparr> ImageMetadata.src = ''/_astro/logo.svg'', width = Fin 64,
         height = Fin 64, format = ''svg'' \<rparr>)) \<lparr> Transform.format := Some ''svg'' \<rparr>) \<and>
   (\<exists>msg. validateOptions (\<lambda>u. None)
     ((only_src (RawMeta \<lparr> ImageMetadata.src = ''/_astro/a.png'', width = Fin 1600,
         height = Fin 900, format = ''png'' \<rparr>)) \<lparr> Transform.format := Some ''svg'' \<rparr>)
     \<lparr> publicDir = Some ''file:///site/public/'', assets = Some ''_astro'',
       outDir = Some ''file:///site/dist/'', defaultFormat = None \<rparr>
     = Inl (AstroError msg)) \<and>
   validateOptions (\<lambda>u. None)
     (only_src (RawMeta \<lparr> ImageMetadata.src = ''/_astro/a.png'', width = Fin 1600,
         height = Fin 900, format = ''png'' \<rparr>))
     \<lparr> publicDir = Some ''file:///site/public/'', assets = Some ''_astro'',
       outDir = Some ''file:///site/dist/'', defaultFormat = None \<rparr>
     = Inr ((only_src (RawMeta \<lparr> ImageMetadata.src = ''/_astro/a.png'', width = Fin 1600,
         height = Fin 900, format = ''png'' \<rparr>)) \<lparr> Transform.format := Some ''avif'' \<rparr>) \<and>
   validateOptions (\<lambda>u. None)
     ((only_src (RawMeta \<lparr> ImageMetadata.src = ''/_astro/a.png'', width = Fin 1600,
         height = Fin 900, format = ''png'' \<rparr>)) \<lparr> Transform.format := Some ''jpg'' \<rparr>)
     \<lparr> publicDir = Some ''file:///site/public/'', assets = Some ''_astro'',
       outDir = Some ''file:///site/dist/'', defaultFormat = Some ''webp'' \<rparr>
     = Inr ((only_src (RawMeta \<lparr> ImageMetadata.src = ''/_astro/a.png'', width = Fin 1600,
         height = Fin 900, format = ''png'' \<rparr>)) \<lparr> Transform.format := Some ''jpeg'' \<rparr>)"
proof -
  let ?c = "\<lparr> publicDir = Some ''file:///site/public/'', assets = Some ''_astro'',
       outDir = Some ''file:///site/dist/'', defaultFormat = None \<rparr>"
  let ?c' = "\<lparr> publicDir = Some ''file:///site/public/'', assets = Some ''_astro'',
       outDir = Some ''file:///site/dist/'', defaultFormat = Some ''webp'' \<rparr>"
  let ?svg = "\<lparr> ImageMetadata.src = ''/_astro/logo.svg'', width = Fin 64,
         height = Fin 64, format = ''svg'' \<rparr>"
  let ?png = "\<lparr> ImageMetadata.src = ''/_astro/a.png'', width = Fin 1600,
         height = Fin 900, format = ''png'' \<rparr>"
  let ?A = "only_src (RawMeta ?svg)"
  let ?B = "(only_src (RawMeta ?png)) \<lparr> Transform.format := Some ''svg'' \<rparr>"
  let ?C = "only_src (RawMeta ?png)"
  let ?D = "(only_src (RawMeta ?png)) \<lparr> Transform.format := Some ''jpg'' \<rparr>"
  have 1: "validateOptions (\<lambda>u. None) ?A ?c = Inr (?A \<lparr> Transform.format := Some ''svg'' \<rparr>)"
    using validateOptions_format_rules [of ?A "\<lambda>u. None" ?c]
    by (simp add: validateOptions_def validate_src_def only_src_def)
  have b: "Transform.src ?B = RawMeta ?png" "ImageMetadata.format ?png \<noteq> ''svg''"
    "Transform.format ?B = Some ''svg''"
    by (simp_all add: only_src_def)
  have 2: "\<exists>msg. validateOptions (\<lambda>u. None) ?B ?c = Inl (AstroError msg)"
    using validateOptions_format_rules [of ?B "\<lambda>u. None" ?c] b by blast
  have 3: "validateOptions (\<lambda>u. None) ?C ?c = Inr (?C \<lparr> Transform.format := Some ''avif'' \<rparr>)"
    using validateOptions_format_rules [of ?C "\<lambda>u. None" ?c]
    by (simp add: validateOptions_def validate_src_def only_src_def)
  have 4: "validateOptions (\<lambda>u. None) ?D ?c' = Inr (?C \<lparr> Transform.format := Some ''jpeg'' \<rparr>)"
    using validateOptions_format_rules [of ?D "\<lambda>u. None" ?c']
    by (simp add: validateOptions_def validate_src_def only_src_def)
  from 1 2 3 4 show ?thesis by blast
qed

lemma is_integer_Math_round: "is_integer (Math_round (Fin r))"
  by simp

lemma validateOptions_dimensions:
  "validateOptions ii options config = Inr options' \<Longrightarrow>
   \<exists>options1. validate_src ii options config = Inr options1 \<and>
     Transform.width options' =
       (if truthy_opt (Transform.width options1)
        then map_option Math_round (Transform.width options1) else Transform.width options1) \<and>
     Transform.height options' =
       (if truthy_opt (Transform.height options1)
        then map_option Math_round (Transform.height options1) else Transform.height options1)"
  by (cases "validate_src ii options config")
     (auto simp: validateOptions_def Let_def split: if_splits)

lemma rounded_dimension_integer:
  "(if truthy_opt d then map_option Math_round d else d) = Some (Fin r) \<Longrightarrow> is_integer (Fin r)"
  by (cases d; cases "the d") (auto split: if_splits)

text \<open>
  C10, amended: when \<^verbatim>\<open>validateOptions\<close> returns, a finite width or height of the returned
  record is an integer, its format is defined, and its format is not \<^verbatim>\<open>jpg\<close> provided
  the configured \<^verbatim>\<open>defaultFormat\<close> is not \<^verbatim>\<open>jpg\<close>.
\<close>

theorem validateOptions_postcondition:
  "validateOptions ii options config = Inr options' \<longrightarrow>
     (\<forall>r. Transform.width options' = Some (Fin r) \<longrightarrow> is_integer (Fin r)) \<and>
     (\<forall>r. Transform.height options' = Some (Fin r) \<longrightarrow> is_integer (Fin r)) \<and>
     Transform.format options' \<noteq> None \<and>
     (defaultFormat config \<noteq> Some ''jpg'' \<longrightarrow> Transform.format options' \<noteq> Some ''jpg'')"
proof
  assume ok: "validateOptions ii options config = Inr options'"
  from validateOptions_dimensions [OF ok] obtain options1 where
    v: "validate_src ii options config = Inr options1" and
    w: "Transform.width options' =
       (if truthy_opt (Transform.width options1)
        then map_option Math_round (Transform.width options1) else Transform.width options1)" and
    h: "Transform.height options' =
       (if truthy_opt (Transform.height options1)
        then map_option Math_round (Transform.height options1) else Transform.height options1)"
    by blast
  have 1: "\<forall>r. Transform.width options' = Some (Fin r) \<longrightarrow> is_integer (Fin r)"
    using w rounded_dimension_integer by metis
  have 2: "\<forall>r. Transform.height options' = Some (Fin r) \<longrightarrow> is_integer (Fin r)"
    using h rounded_dimension_integer by metis
  have 3: "Transform.format options' \<noteq> None"
    using validateOptions_format [OF v ok]
    by (cases "Transform.format options1") (auto split: if_splits)
  have 4: "defaultFormat config \<noteq> Some ''jpg'' \<longrightarrow> Transform.format options' \<noteq> Some ''jpg''"
    using validateOptions_format [OF v ok] by (auto split: if_splits option.splits)
  from 1 2 3 4 show "(\<forall>r. Transform.width options' = Some (Fin r) \<longrightarrow> is_integer (Fin r)) \<and>
     (\<forall>r. Transform.height options' = Some (Fin r) \<longrightarrow> is_integer (Fin r)) \<and>
     Transform.format options' \<noteq> None \<and>
     (defaultFormat config \<noteq> Some ''jpg'' \<longrightarrow> Transform.format options' \<noteq> Some ''jpg'')"
    by blast
qed

text \<open>
  C10, as the claim states it, fails: a width of \<^verbatim>\<open>NaN\<close> is falsy, so it is neither
  rounded nor replaced and the returned width is \<^verbatim>\<open>NaN\<close>, which is no integer; and with
  the \<^verbatim>\<open>defaultFormat\<close> \<^verbatim>\<open>jpg\<close> and no requested format the returned format is \<^verbatim>\<open>jpg\<close>,
  the default not being normalized.
\<close>

theorem validateOptions_postcondition_counterexample:
  "validateOptions (\<lambda>u. None)
     ((only_src (RawMeta \<lparr> ImageMetadata.src = ''/_astro/a.png'', width = Fin 1600,
         height = Fin 900, format = ''png'' \<rparr>)) \<lparr> Transform.width := Some NaN \<rparr>)
     \<lparr> publicDir = Some ''file:///site/public/'', assets = Some ''_astro'',
       outDir = Some ''file:///site/dist/'', defaultFormat = Some ''jpg'' \<rparr>
   = Inr ((only_src (RawMeta \<lparr> ImageMetadata.src = ''/_astro/a.png'', width = Fin 1600,
         height = Fin 900, format = ''png'' \<rparr>))
       \<lparr> Transform.width := Some NaN, Transform.format := Some ''jpg'' \<rparr>) \<and>
   \<not> is_integer NaN"
  by (simp add: validateOptions_def validate_src_def only_src_def)

theorem validateOptions_postcondition_witness:
  "validateOptions (\<lambda>u. None)
     ((only_src (RawMeta \<lparr> ImageMetadata.src = ''/_astro/a.png'', width = Fin 1600,
         height = Fin 900, format = ''png'' \<rparr>))
       \<lparr> Transform.width := Some (Fin (801 / 2)), Transform.format := Some ''jpg'' \<rparr>)
     \<lparr> publicDir = Some ''file:///site/public/'', assets = Some ''_astro'',
       outDir = Some ''file:///site/dist/'', defaultFormat = None \<rparr>
   = Inr ((only_src (RawMeta \<lparr> ImageMetadata.src = ''/_astro/a.png'', width = Fin 1600,
         height = Fin 900, format = ''png'' \<rparr>))
       \<lparr> Transform.width := Some (Fin 401), Transform.format := Some ''jpeg'' \<rparr>) \<and>
   is_integer (Fin 401) \<and>
   Transform.format ((only_src (RawMeta \<lparr> ImageMetadata.src = ''/_astro/a.png'', width = Fin 1600,
         height = Fin 900, format = ''png'' \<rparr>))
       \<lparr> Transform.width := Some (Fin 401), Transform.format := Some ''jpeg'' \<rparr>) \<noteq> Some ''jpg''"
proof -
  let ?c = "\<lparr> publicDir = Some ''file:///site/public/'', assets = Some ''_astro'',
       outDir = Some ''file:///site/dist/'', defaultFormat = None \<rparr>"
  let ?m = "\<lparr> ImageMetadata.src = ''/_astro/a.png'', width = Fin 1600,
         height = Fin 900, format = ''png'' \<rparr>"
  let ?X = "(only_src (RawMeta ?m))
       \<lparr> Transform.width := Some (Fin (801 / 2)), Transform.format := Some ''jpg'' \<rparr>"
  let ?R = "(only_src (RawMeta ?m))
       \<lparr> Transform.width := Some (Fin 401), Transform.format := Some ''jpeg'' \<rparr>"
  have run: "validateOptions (\<lambda>u. None) ?X ?c = Inr ?R"
    by (simp add: validateOptions_def validate_src_def only_src_def)
  have w: "Transform.width ?R = Some (Fin 401)"
    by (simp add: only_src_def)
  have d: "defaultFormat ?c \<noteq> Some ''jpg''"
    by simp
  from validateOptions_postcondition [of "\<lambda>u. None" ?X ?c ?R] run w d
  have "is_integer (Fin 401)" and "Transform.format ?R \<noteq> Some ''jpg''"
    by blast+
  with run show ?thesis by blast
qed

subsection \<open>The query string: encoding and decoding\<close>

declare string_of_nat.simps [simp del]








declare percent_decode.simps [simp del]
























subsection \<open>Numbers and their strings\<close>








declare nat_of_digits.simps [simp del]







declare unsigned_string.simps [simp del]




subsection \<open>getURL followed by parseURL\<close>











subsection \<open>Determinism\<close>



end
